theory Spec2Isabelle
  imports Main "HOL-Library.Sublist"
begin

section \<open>The data of \<open>lib/pull-request/bump.ts\<close>\<close>

text \<open>
  The file declares two interfaces, \<open>AutoBumpHead\<close> and \<open>AutoBumpProps\<close>, and one class,
  \<open>AutoBump\<close>, whose constructor resolves five defaults and hands an object literal to
  \<open>new AutoPullRequest\<close>. An optional property (\<open>name?: string\<close>) is an \<open>option\<close>:
  \<open>None\<close> is \<open>undefined\<close> (an absent property and one holding \<open>undefined\<close> read the same).
  Under the declared types no property is \<open>null\<close>.

  A string is kept as it is, the empty string included: \<open>??\<close> replaces only
  \<open>undefined\<close>, so \<open>Some []\<close> is a supplied value.
\<close>

text \<open>
  Modelled from the spec: the type of \<open>props.repo\<close> is declared in \<open>./pr\<close>, which is not
  among the sources. The constructor reads \<open>props.repo.owner\<close> and \<open>props.repo.repo\<close>
  (line 100); the spec gives them as strings (\<open>RepositoryIdentity\<close>).
\<close>

record RepositoryIdentity =
  owner :: string
  repo :: string

text \<open>
  \<open>AutoBumpHead\<close> (lines 17 to 32). TypeScript's types are structural: an object with
  further properties (the engine's own head shape has \<open>source\<close>) is accepted where an
  \<open>AutoBumpHead\<close> is expected. Such properties are the extension part of the record,
  so the head of a request has the type \<open>'h AutoBumpHead_scheme\<close>.
\<close>

record AutoBumpHead =
  name :: "string option"
  sha :: "string option"

text \<open>
  \<open>AutoBumpProps\<close> (lines 37 to 84) extends \<open>Omitted\<close>, which is \<open>AutoPullRequestProps\<close>
  without \<open>commands\<close>, \<open>condition\<close> and \<open>head\<close> (line 12). Of the inherited properties
  the constructor reads \<open>repo\<close> and \<open>exports\<close>; all the others are the field \<open>rest\<close>, of
  a type \<open>'p\<close> that the constructor never inspects.

  \<open>Omit\<close> removes \<open>commands\<close> and \<open>condition\<close> from the declared type only: an object that
  carries them still passes as a non-literal argument, and the spread \<open>...props\<close> copies
  every own property. So the model of a props value has both, optional.

  Modelled from the spec: the types of \<open>exports\<close>, \<open>commands\<close> and \<open>condition\<close> are
  declared in \<open>./pr\<close>, which is not among the sources. The spec gives \<open>exports\<close> as an
  optional mapping from strings to strings, \<open>commands\<close> as a list of strings and
  \<open>condition\<close> as a string.
\<close>

record ('h, 'p) AutoBumpProps =
  bumpCommand :: "string option"
  versionCommand :: "string option"
  title :: "string option"
  body :: "string option"
  head :: "'h AutoBumpHead_scheme option"
  repo :: RepositoryIdentity
  exports :: "(string \<rightharpoonup> string) option"
  commands :: "string list option"
  condition :: "string option"
  rest :: 'p

text \<open>
  The head of the object literal (lines 104 to 107): \<open>name\<close> is the string
  \<open>branchName\<close>, \<open>source\<close> is \<open>props.head?.sha\<close>, which may be \<open>undefined\<close>.
\<close>

record AutoPullRequestHead =
  name :: string
  source :: "string option"

text \<open>
  The object literal of lines 102 to 117. The keys written after the spread
  (\<open>head\<close>, \<open>title\<close>, \<open>body\<close>, \<open>commands\<close>, \<open>exports\<close>, \<open>condition\<close>) hold the values
  written there; the other own properties of \<open>props\<close> (\<open>bumpCommand\<close>, \<open>versionCommand\<close>,
  \<open>repo\<close>, and the rest) are the ones the spread copied.
\<close>

record 'p AutoPullRequestProps =
  head :: AutoPullRequestHead
  title :: string
  body :: string
  commands :: "string list"
  exports :: "string \<rightharpoonup> string"
  condition :: string
  bumpCommand :: "string option"
  versionCommand :: "string option"
  repo :: RepositoryIdentity
  rest :: 'p

section \<open>The constructor of \<open>AutoBump\<close>\<close>

text \<open>The five constants of lines 96 to 100, each a function of \<open>props\<close>.\<close>

text \<open>Line 96: \<open>props.head?.name ?? 'bump/$VERSION'\<close>.\<close>

definition branchName :: "('h, 'p) AutoBumpProps \<Rightarrow> string" where
  "branchName props =
     (case (case AutoBumpProps.head props of None \<Rightarrow> None | Some h \<Rightarrow> AutoBumpHead.name h) of
        None \<Rightarrow> ''bump/$VERSION''
      | Some n \<Rightarrow> n)"

text \<open>
  Line 97: \<open>props.bumpCommand ?? '/bin/sh ./bump.sh'\<close>. (The doc comment of line 45
  names \<open>/bin/bash ./bump.sh\<close>; the value is the one of line 97.)
\<close>

definition bumpCommand :: "('h, 'p) AutoBumpProps \<Rightarrow> string" where
  "bumpCommand props =
     (case AutoBumpProps.bumpCommand props of None \<Rightarrow> ''/bin/sh ./bump.sh'' | Some c \<Rightarrow> c)"

text \<open>Line 98: \<open>props.versionCommand ?? 'git describe'\<close>.\<close>

definition versionCommand :: "('h, 'p) AutoBumpProps \<Rightarrow> string" where
  "versionCommand props =
     (case AutoBumpProps.versionCommand props of None \<Rightarrow> ''git describe'' | Some c \<Rightarrow> c)"

text \<open>Line 99: \<open>props.title ?? 'chore(release): $VERSION'\<close>.\<close>

definition title :: "('h, 'p) AutoBumpProps \<Rightarrow> string" where
  "title props =
     (case AutoBumpProps.title props of None \<Rightarrow> ''chore(release): $VERSION'' | Some t \<Rightarrow> t)"

text \<open>
  Line 100: \<open>props.body\<close>, or else the template literal, whose three holes are
  \<open>props.repo.owner\<close>, \<open>props.repo.repo\<close> and the constant \<open>branchName\<close> of line 96.
\<close>

definition body :: "('h, 'p) AutoBumpProps \<Rightarrow> string" where
  "body props =
     (case AutoBumpProps.body props of
        None \<Rightarrow>
          ''See [CHANGELOG](https://github.com/'' @ owner (AutoBumpProps.repo props)
            @ ''/'' @ RepositoryIdentity.repo (AutoBumpProps.repo props)
            @ ''/blob/'' @ branchName props @ ''/CHANGELOG.md)''
      | Some b \<Rightarrow> b)"

text \<open>
  Lines 102 to 117: the object handed to \<open>new AutoPullRequest(this, 'AutoBump', ...)\<close>
  and kept in \<open>this.pr\<close>. \<open>...props.exports\<close> spreads nothing when \<open>props.exports\<close> is
  \<open>undefined\<close>; the key \<open>'VERSION'\<close> is written after the spread.
\<close>

definition AutoBump :: "('h, 'p) AutoBumpProps \<Rightarrow> 'p AutoPullRequestProps" where
  "AutoBump props =
     \<lparr> AutoPullRequestProps.head =
         \<lparr> AutoPullRequestHead.name = branchName props,
           AutoPullRequestHead.source =
             (case AutoBumpProps.head props of None \<Rightarrow> None | Some h \<Rightarrow> sha h) \<rparr>,
       AutoPullRequestProps.title = title props,
       AutoPullRequestProps.body = body props,
       AutoPullRequestProps.commands = [bumpCommand props],
       AutoPullRequestProps.exports =
         (case AutoBumpProps.exports props of None \<Rightarrow> Map.empty | Some m \<Rightarrow> m)
           (''VERSION'' \<mapsto> versionCommand props),
       AutoPullRequestProps.condition = ''git describe --exact-match master'',
       AutoPullRequestProps.bumpCommand = AutoBumpProps.bumpCommand props,
       AutoPullRequestProps.versionCommand = AutoBumpProps.versionCommand props,
       AutoPullRequestProps.repo = AutoBumpProps.repo props,
       AutoPullRequestProps.rest = AutoBumpProps.rest props \<rparr>"

section \<open>Requests used in the statements\<close>

text \<open>
  The request with every optional property absent: the object \<open>{repo: i, ...r}\<close>, where
  \<open>r\<close> holds the other inherited properties.
\<close>

definition emptyRequest :: "RepositoryIdentity \<Rightarrow> 'p \<Rightarrow> ('h, 'p) AutoBumpProps" where
  "emptyRequest i r =
     \<lparr> AutoBumpProps.bumpCommand = None, AutoBumpProps.versionCommand = None,
       AutoBumpProps.title = None, AutoBumpProps.body = None,
       AutoBumpProps.head = None, AutoBumpProps.repo = i,
       AutoBumpProps.exports = None, AutoBumpProps.commands = None,
       AutoBumpProps.condition = None, AutoBumpProps.rest = r \<rparr>"

definition acme_widgets :: RepositoryIdentity where
  "acme_widgets = \<lparr> owner = ''acme'', RepositoryIdentity.repo = ''widgets'' \<rparr>"

text \<open>
  Two requests that are equal at every key other than \<open>commands\<close>, \<open>condition\<close> and
  \<open>head\<close>.
\<close>

definition differ_only_in_commands_condition_head ::
    "('h, 'p) AutoBumpProps \<Rightarrow> ('h, 'p) AutoBumpProps \<Rightarrow> bool" where
  "differ_only_in_commands_condition_head p q =
     (AutoBumpProps.bumpCommand p = AutoBumpProps.bumpCommand q
      \<and> AutoBumpProps.versionCommand p = AutoBumpProps.versionCommand q
      \<and> AutoBumpProps.title p = AutoBumpProps.title q
      \<and> AutoBumpProps.body p = AutoBumpProps.body q
      \<and> AutoBumpProps.repo p = AutoBumpProps.repo q
      \<and> AutoBumpProps.exports p = AutoBumpProps.exports q
      \<and> AutoBumpProps.rest p = AutoBumpProps.rest q)"

text \<open>
  Two requests that are equal at every key other than \<open>commands\<close> and \<open>condition\<close>, and
  whose heads give the same \<open>props.head?.name\<close> and the same \<open>props.head?.sha\<close>: the
  heads may differ in every other property (the two extension types may differ too).
\<close>

definition differ_only_in_unread ::
    "('h, 'p) AutoBumpProps \<Rightarrow> ('k, 'p) AutoBumpProps \<Rightarrow> bool" where
  "differ_only_in_unread p q =
     (AutoBumpProps.bumpCommand p = AutoBumpProps.bumpCommand q
      \<and> AutoBumpProps.versionCommand p = AutoBumpProps.versionCommand q
      \<and> AutoBumpProps.title p = AutoBumpProps.title q
      \<and> AutoBumpProps.body p = AutoBumpProps.body q
      \<and> AutoBumpProps.repo p = AutoBumpProps.repo q
      \<and> AutoBumpProps.exports p = AutoBumpProps.exports q
      \<and> AutoBumpProps.rest p = AutoBumpProps.rest q
      \<and> (case AutoBumpProps.head p of None \<Rightarrow> None | Some h \<Rightarrow> AutoBumpHead.name h)
          = (case AutoBumpProps.head q of None \<Rightarrow> None | Some h \<Rightarrow> AutoBumpHead.name h)
      \<and> (case AutoBumpProps.head p of None \<Rightarrow> None | Some h \<Rightarrow> sha h)
          = (case AutoBumpProps.head q of None \<Rightarrow> None | Some h \<Rightarrow> sha h))"

section \<open>Defaults\<close>

text \<open>
  C1. For the request with every optional property absent and the repository
  \<open>{owner: "acme", repo: "widgets"}\<close>, the constructor resolves the branch name
  \<open>bump/$VERSION\<close>, the bump command \<open>/bin/sh ./bump.sh\<close>, the version command
  \<open>git describe\<close>, the title \<open>chore(release): $VERSION\<close> and the body
  \<open>See [CHANGELOG](https://github.com/acme/widgets/blob/bump/$VERSION/CHANGELOG.md)\<close>,
  and passes on the commands \<open>["/bin/sh ./bump.sh"]\<close>, the exports
  \<open>{"VERSION": "git describe"}\<close> and the condition \<open>git describe --exact-match master\<close>.
  The other inherited properties \<open>r\<close> are arbitrary and are passed on as they are.
\<close>

theorem defaults_of_empty_request:
  fixes r :: 'p
  defines "props \<equiv> (emptyRequest acme_widgets r :: ('h, 'p) AutoBumpProps)"
  shows "branchName props = ''bump/$VERSION''
    \<and> bumpCommand props = ''/bin/sh ./bump.sh''
    \<and> versionCommand props = ''git describe''
    \<and> title props = ''chore(release): $VERSION''
    \<and> body props
        = ''See [CHANGELOG](https://github.com/acme/widgets/blob/bump/$VERSION/CHANGELOG.md)''
    \<and> AutoBump props =
        \<lparr> AutoPullRequestProps.head =
            \<lparr> AutoPullRequestHead.name = ''bump/$VERSION'',
              AutoPullRequestHead.source = None \<rparr>,
          AutoPullRequestProps.title = ''chore(release): $VERSION'',
          AutoPullRequestProps.body =
            ''See [CHANGELOG](https://github.com/acme/widgets/blob/bump/$VERSION/CHANGELOG.md)'',
          AutoPullRequestProps.commands = [''/bin/sh ./bump.sh''],
          AutoPullRequestProps.exports = [''VERSION'' \<mapsto> ''git describe''],
          AutoPullRequestProps.condition = ''git describe --exact-match master'',
          AutoPullRequestProps.bumpCommand = None,
          AutoPullRequestProps.versionCommand = None,
          AutoPullRequestProps.repo = \<lparr> owner = ''acme'', RepositoryIdentity.repo = ''widgets'' \<rparr>,
          AutoPullRequestProps.rest = r \<rparr>"
  by (simp add: props_def emptyRequest_def acme_widgets_def AutoBump_def branchName_def bumpCommand_def
      versionCommand_def title_def body_def)

section \<open>Overrides\<close>

text \<open>
  C2. Each of the five defaulted values follows the caller's value whenever the
  caller supplies one, whatever the rest of the request holds: the branch name is
  \<open>props.head.name\<close>, the only command is \<open>props.bumpCommand\<close>, \<open>exports.VERSION\<close> is
  \<open>props.versionCommand\<close>, the title is \<open>props.title\<close>, the body is \<open>props.body\<close>. The
  output field then holds the default (for the body: the derived link) only if the
  caller's own value is that very string.
\<close>

theorem override_precedence:
  fixes props :: "('h, 'p) AutoBumpProps"
  shows
    "(\<forall>h n. AutoBumpProps.head props = Some h \<and> AutoBumpHead.name h = Some n \<longrightarrow>
        AutoPullRequestHead.name (AutoPullRequestProps.head (AutoBump props)) = n
        \<and> (AutoPullRequestHead.name (AutoPullRequestProps.head (AutoBump props))
              = ''bump/$VERSION'') = (n = ''bump/$VERSION''))
     \<and> (\<forall>c. AutoBumpProps.bumpCommand props = Some c \<longrightarrow>
        AutoPullRequestProps.commands (AutoBump props) = [c]
        \<and> (AutoPullRequestProps.commands (AutoBump props) = [''/bin/sh ./bump.sh''])
            = (c = ''/bin/sh ./bump.sh''))
     \<and> (\<forall>c. AutoBumpProps.versionCommand props = Some c \<longrightarrow>
        AutoPullRequestProps.exports (AutoBump props) ''VERSION'' = Some c
        \<and> (AutoPullRequestProps.exports (AutoBump props) ''VERSION'' = Some ''git describe'')
            = (c = ''git describe''))
     \<and> (\<forall>t. AutoBumpProps.title props = Some t \<longrightarrow>
        AutoPullRequestProps.title (AutoBump props) = t
        \<and> (AutoPullRequestProps.title (AutoBump props) = ''chore(release): $VERSION'')
            = (t = ''chore(release): $VERSION''))
     \<and> (\<forall>b. AutoBumpProps.body props = Some b \<longrightarrow>
        AutoPullRequestProps.body (AutoBump props) = b
        \<and> (AutoPullRequestProps.body (AutoBump props)
              = ''See [CHANGELOG](https://github.com/'' @ owner (AutoBumpProps.repo props)
                  @ ''/'' @ RepositoryIdentity.repo (AutoBumpProps.repo props)
                  @ ''/blob/'' @ branchName props @ ''/CHANGELOG.md)'')
            = (b = ''See [CHANGELOG](https://github.com/'' @ owner (AutoBumpProps.repo props)
                  @ ''/'' @ RepositoryIdentity.repo (AutoBumpProps.repo props)
                  @ ''/blob/'' @ branchName props @ ''/CHANGELOG.md)''))"
  by (simp add: AutoBump_def branchName_def bumpCommand_def versionCommand_def title_def
      body_def)

text \<open>
  The request \<open>{repo: acme/widgets, title: "release $VERSION"}\<close> supplies the title
  alone; the request after it supplies all five values.
\<close>

theorem override_precedence_witness:
  "AutoBumpProps.title
      ((emptyRequest acme_widgets () :: (unit, unit) AutoBumpProps) \<lparr> AutoBumpProps.title := Some ''release $VERSION'' \<rparr>)
     = Some ''release $VERSION''
   \<and> AutoPullRequestProps.title (AutoBump
      ((emptyRequest acme_widgets () :: (unit, unit) AutoBumpProps) \<lparr> AutoBumpProps.title := Some ''release $VERSION'' \<rparr>))
     = ''release $VERSION''
   \<and> AutoPullRequestHead.name (AutoPullRequestProps.head (AutoBump
      ((emptyRequest acme_widgets () :: (unit, unit) AutoBumpProps)
        \<lparr> AutoBumpProps.bumpCommand := Some ''make bump'',
          AutoBumpProps.versionCommand := Some ''cat VERSION'',
          AutoBumpProps.title := Some ''release $VERSION'',
          AutoBumpProps.body := Some ''notes'',
          AutoBumpProps.head := Some \<lparr> AutoBumpHead.name = Some ''release/$VERSION'',
            sha = None \<rparr> \<rparr>)))
     = ''release/$VERSION''
   \<and> AutoPullRequestProps.commands (AutoBump
      ((emptyRequest acme_widgets () :: (unit, unit) AutoBumpProps)
        \<lparr> AutoBumpProps.bumpCommand := Some ''make bump'',
          AutoBumpProps.versionCommand := Some ''cat VERSION'',
          AutoBumpProps.title := Some ''release $VERSION'',
          AutoBumpProps.body := Some ''notes'',
          AutoBumpProps.head := Some \<lparr> AutoBumpHead.name = Some ''release/$VERSION'',
            sha = None \<rparr> \<rparr>))
     = [''make bump'']
   \<and> AutoPullRequestProps.exports (AutoBump
      ((emptyRequest acme_widgets () :: (unit, unit) AutoBumpProps)
        \<lparr> AutoBumpProps.bumpCommand := Some ''make bump'',
          AutoBumpProps.versionCommand := Some ''cat VERSION'',
          AutoBumpProps.title := Some ''release $VERSION'',
          AutoBumpProps.body := Some ''notes'',
          AutoBumpProps.head := Some \<lparr> AutoBumpHead.name = Some ''release/$VERSION'',
            sha = None \<rparr> \<rparr>)) ''VERSION''
     = Some ''cat VERSION''
   \<and> AutoPullRequestProps.title (AutoBump
      ((emptyRequest acme_widgets () :: (unit, unit) AutoBumpProps)
        \<lparr> AutoBumpProps.bumpCommand := Some ''make bump'',
          AutoBumpProps.versionCommand := Some ''cat VERSION'',
          AutoBumpProps.title := Some ''release $VERSION'',
          AutoBumpProps.body := Some ''notes'',
          AutoBumpProps.head := Some \<lparr> AutoBumpHead.name = Some ''release/$VERSION'',
            sha = None \<rparr> \<rparr>))
     = ''release $VERSION''
   \<and> AutoPullRequestProps.body (AutoBump
      ((emptyRequest acme_widgets () :: (unit, unit) AutoBumpProps)
        \<lparr> AutoBumpProps.bumpCommand := Some ''make bump'',
          AutoBumpProps.versionCommand := Some ''cat VERSION'',
          AutoBumpProps.title := Some ''release $VERSION'',
          AutoBumpProps.body := Some ''notes'',
          AutoBumpProps.head := Some \<lparr> AutoBumpHead.name = Some ''release/$VERSION'',
            sha = None \<rparr> \<rparr>))
     = ''notes''"
  using
    override_precedence [of "(emptyRequest acme_widgets () :: (unit, unit) AutoBumpProps)
        \<lparr> AutoBumpProps.title := Some ''release $VERSION'' \<rparr>"]
    override_precedence [of "(emptyRequest acme_widgets () :: (unit, unit) AutoBumpProps)
        \<lparr> AutoBumpProps.bumpCommand := Some ''make bump'',
          AutoBumpProps.versionCommand := Some ''cat VERSION'',
          AutoBumpProps.title := Some ''release $VERSION'',
          AutoBumpProps.body := Some ''notes'',
          AutoBumpProps.head := Some \<lparr> AutoBumpHead.name = Some ''release/$VERSION'',
            sha = None \<rparr> \<rparr>"]
  by (simp add: emptyRequest_def)

section \<open>The derived body\<close>

text \<open>
  Two facts about lists, for the place of the token in the link: a list with a
  single \<open>c\<close> is split at \<open>c\<close> in one way only, so a sublist with a \<open>c\<close> of its own
  lies around that place.
\<close>

lemma split_at_single_occurrence:
  assumes "P @ c # Q = A @ c # C" and "c \<notin> set A" and "c \<notin> set P"
  shows "P = A \<and> Q = C"
  using assms
proof (induction P arbitrary: A)
  case Nil
  then show ?case by (cases A) auto
next
  case (Cons x P)
  then show ?case by (cases A) auto
qed

lemma sublist_around_single_occurrence:
  assumes sub: "sublist (u @ c # v) (A @ c # C)"
    and A: "c \<notin> set A" and C: "c \<notin> set C"
  shows "suffix u A \<and> prefix v C"
proof -
  from sub obtain ps ss where eq: "A @ c # C = ps @ (u @ c # v) @ ss"
    by (auto simp: sublist_def)
  then have eq': "(ps @ u) @ c # (v @ ss) = A @ c # C"
    by simp
  have "c \<notin> set (ps @ u)"
  proof
    assume "c \<in> set (ps @ u)"
    then obtain xs ys where split: "ps @ u = xs @ c # ys" and "c \<notin> set xs"
      by (meson split_list_first)
    with eq' have "xs @ c # (ys @ c # v @ ss) = A @ c # C"
      by simp
    with \<open>c \<notin> set xs\<close> A have "ys @ c # v @ ss = C"
      using split_at_single_occurrence [of xs c "ys @ c # v @ ss" A C] by simp
    with C show False by auto
  qed
  with eq' A have "ps @ u = A \<and> v @ ss = C"
    using split_at_single_occurrence [of "ps @ u" c "v @ ss" A C] by simp
  then show ?thesis
    by (auto simp: suffix_def prefix_def)
qed

text \<open>
  C3. When \<open>props.body\<close> is absent, the body is
  \<open>See [CHANGELOG](https://github.com/{owner}/{repo}/blob/{branchName}/CHANGELOG.md)\<close>,
  where \<open>branchName\<close> is the resolved branch name: \<open>props.head.name\<close> if supplied, else
  \<open>bump/$VERSION\<close>. For \<open>props.head.name = "release/$VERSION"\<close> the link's path after
  \<open>/blob/\<close> is \<open>release/$VERSION/CHANGELOG.md\<close>: it contains \<open>release/$VERSION\<close> and
  does not contain \<open>bump/$VERSION\<close>. The body as a whole contains \<open>release/$VERSION\<close>,
  and contains no \<open>bump/$VERSION\<close> when neither the owner nor the repository name
  has a \<open>$\<close>.
\<close>

theorem body_from_resolved_branch:
  fixes props :: "('h, 'p) AutoBumpProps"
  assumes "AutoBumpProps.body props = None"
  shows
    "AutoPullRequestProps.body (AutoBump props)
       = ''See [CHANGELOG](https://github.com/'' @ owner (AutoBumpProps.repo props)
           @ ''/'' @ RepositoryIdentity.repo (AutoBumpProps.repo props)
           @ ''/blob/'' @ branchName props @ ''/CHANGELOG.md)''
     \<and> branchName props
       = (case AutoBumpProps.head props of
            None \<Rightarrow> ''bump/$VERSION''
          | Some h \<Rightarrow> (case AutoBumpHead.name h of None \<Rightarrow> ''bump/$VERSION'' | Some n \<Rightarrow> n))
     \<and> (\<forall>h. AutoBumpProps.head props = Some h
            \<and> AutoBumpHead.name h = Some ''release/$VERSION'' \<longrightarrow>
          AutoPullRequestProps.body (AutoBump props)
            = ''See [CHANGELOG](https://github.com/'' @ owner (AutoBumpProps.repo props)
                @ ''/'' @ RepositoryIdentity.repo (AutoBumpProps.repo props)
                @ ''/blob/'' @ ''release/$VERSION/CHANGELOG.md)''
          \<and> sublist ''release/$VERSION'' ''release/$VERSION/CHANGELOG.md)''
          \<and> \<not> sublist ''bump/$VERSION'' ''release/$VERSION/CHANGELOG.md)''
          \<and> sublist ''release/$VERSION'' (AutoPullRequestProps.body (AutoBump props))
          \<and> (CHR ''$'' \<notin> set (owner (AutoBumpProps.repo props))
              \<and> CHR ''$'' \<notin> set (RepositoryIdentity.repo (AutoBumpProps.repo props)) \<longrightarrow>
             \<not> sublist ''bump/$VERSION'' (AutoPullRequestProps.body (AutoBump props))))"
proof -
  let ?o = "owner (AutoBumpProps.repo props)"
  let ?r = "RepositoryIdentity.repo (AutoBumpProps.repo props)"
  let ?body = "AutoPullRequestProps.body (AutoBump props)"
  have link: "?body = ''See [CHANGELOG](https://github.com/'' @ ?o @ ''/'' @ ?r
      @ ''/blob/'' @ branchName props @ ''/CHANGELOG.md)''"
    using assms by (simp add: AutoBump_def body_def)
  have branch: "branchName props
      = (case AutoBumpProps.head props of
           None \<Rightarrow> ''bump/$VERSION''
         | Some h \<Rightarrow> (case AutoBumpHead.name h of None \<Rightarrow> ''bump/$VERSION'' | Some n \<Rightarrow> n))"
    by (simp add: branchName_def split: option.splits)
  have path_has: "sublist ''release/$VERSION'' ''release/$VERSION/CHANGELOG.md)''"
    by code_simp
  have path_has_not: "\<not> sublist ''bump/$VERSION'' ''release/$VERSION/CHANGELOG.md)''"
    by code_simp
  have release: "?body = ''See [CHANGELOG](https://github.com/'' @ ?o @ ''/'' @ ?r
        @ ''/blob/'' @ ''release/$VERSION/CHANGELOG.md)''
      \<and> sublist ''release/$VERSION'' ''release/$VERSION/CHANGELOG.md)''
      \<and> \<not> sublist ''bump/$VERSION'' ''release/$VERSION/CHANGELOG.md)''
      \<and> sublist ''release/$VERSION'' ?body
      \<and> (CHR ''$'' \<notin> set ?o \<and> CHR ''$'' \<notin> set ?r \<longrightarrow> \<not> sublist ''bump/$VERSION'' ?body)"
    if hn: "AutoBumpProps.head props = Some h
      \<and> AutoBumpHead.name h = Some ''release/$VERSION''" for h
  proof -
    from hn have b: "branchName props = ''release/$VERSION''"
      by (simp add: branchName_def)
    have eq: "?body = ''See [CHANGELOG](https://github.com/'' @ ?o @ ''/'' @ ?r
        @ ''/blob/'' @ ''release/$VERSION/CHANGELOG.md)''"
      unfolding link b by simp
    have "?body = (''See [CHANGELOG](https://github.com/'' @ ?o @ ''/'' @ ?r @ ''/blob/'')
        @ ''release/$VERSION'' @ ''/CHANGELOG.md)''"
      unfolding eq by simp
    then have has: "sublist ''release/$VERSION'' ?body"
      unfolding sublist_def by blast
    have has_not: "\<not> sublist ''bump/$VERSION'' ?body"
      if o: "CHR ''$'' \<notin> set ?o \<and> CHR ''$'' \<notin> set ?r"
    proof
      let ?A = "''See [CHANGELOG](https://github.com/'' @ ?o @ ''/'' @ ?r @ ''/blob/release/''"
      assume a: "sublist ''bump/$VERSION'' ?body"
      have e1: "''bump/'' @ CHR ''$'' # ''VERSION'' = ''bump/$VERSION''"
        by simp
      have e2: "?A @ CHR ''$'' # ''VERSION/CHANGELOG.md)'' = ?body"
        unfolding eq by simp
      have "sublist (''bump/'' @ CHR ''$'' # ''VERSION'')
          (?A @ CHR ''$'' # ''VERSION/CHANGELOG.md)'')"
        unfolding e1 e2 by (rule a)
      moreover have "CHR ''$'' \<notin> set ?A"
        using o by simp
      moreover have "CHR ''$'' \<notin> set ''VERSION/CHANGELOG.md)''"
        by simp
      ultimately have "suffix ''bump/'' ?A"
        by (rule sublist_around_single_occurrence [THEN conjunct1])
      then have "prefix (rev ''bump/'') (rev ?A)"
        by (simp only: suffix_to_prefix)
      then show False by simp
    qed
    show ?thesis
    proof (intro conjI impI)
      show "CHR ''$'' \<notin> set ?o \<and> CHR ''$'' \<notin> set ?r \<Longrightarrow> \<not> sublist ''bump/$VERSION'' ?body"
        by (rule has_not)
    qed (rule eq path_has path_has_not has)+
  qed
  show ?thesis
  proof (intro conjI allI)
    show "?body = ''See [CHANGELOG](https://github.com/'' @ ?o @ ''/'' @ ?r
        @ ''/blob/'' @ branchName props @ ''/CHANGELOG.md)''"
      by (rule link)
    show "branchName props
        = (case AutoBumpProps.head props of
             None \<Rightarrow> ''bump/$VERSION''
           | Some h \<Rightarrow> (case AutoBumpHead.name h of None \<Rightarrow> ''bump/$VERSION'' | Some n \<Rightarrow> n))"
      by (rule branch)
    show "AutoBumpProps.head props = Some h
          \<and> AutoBumpHead.name h = Some ''release/$VERSION'' \<longrightarrow>
        ?body = ''See [CHANGELOG](https://github.com/'' @ ?o @ ''/'' @ ?r
          @ ''/blob/'' @ ''release/$VERSION/CHANGELOG.md)''
        \<and> sublist ''release/$VERSION'' ''release/$VERSION/CHANGELOG.md)''
        \<and> \<not> sublist ''bump/$VERSION'' ''release/$VERSION/CHANGELOG.md)''
        \<and> sublist ''release/$VERSION'' ?body
        \<and> (CHR ''$'' \<notin> set ?o \<and> CHR ''$'' \<notin> set ?r \<longrightarrow> \<not> sublist ''bump/$VERSION'' ?body)"
      for h
      by (rule impI) (rule release)
  qed
qed

text \<open>
  The request \<open>{repo: acme/widgets, head: {name: "release/$VERSION"}}\<close>, with no body.
\<close>

theorem body_from_resolved_branch_witness:
  "AutoBumpProps.body ((emptyRequest acme_widgets () :: (unit, unit) AutoBumpProps)
      \<lparr> AutoBumpProps.head := Some \<lparr> AutoBumpHead.name = Some ''release/$VERSION'',
          sha = None \<rparr> \<rparr>) = None
   \<and> AutoPullRequestProps.body (AutoBump ((emptyRequest acme_widgets () :: (unit, unit) AutoBumpProps)
      \<lparr> AutoBumpProps.head := Some \<lparr> AutoBumpHead.name = Some ''release/$VERSION'',
          sha = None \<rparr> \<rparr>))
     = ''See [CHANGELOG](https://github.com/acme/widgets/blob/release/$VERSION/CHANGELOG.md)''
   \<and> sublist ''release/$VERSION'' (AutoPullRequestProps.body (AutoBump
      ((emptyRequest acme_widgets () :: (unit, unit) AutoBumpProps)
        \<lparr> AutoBumpProps.head := Some \<lparr> AutoBumpHead.name = Some ''release/$VERSION'',
            sha = None \<rparr> \<rparr>)))
   \<and> \<not> sublist ''bump/$VERSION'' (AutoPullRequestProps.body (AutoBump
      ((emptyRequest acme_widgets () :: (unit, unit) AutoBumpProps)
        \<lparr> AutoBumpProps.head := Some \<lparr> AutoBumpHead.name = Some ''release/$VERSION'',
            sha = None \<rparr> \<rparr>)))"
proof -
  let ?p = "(emptyRequest acme_widgets () :: (unit, unit) AutoBumpProps)
      \<lparr> AutoBumpProps.head := Some \<lparr> AutoBumpHead.name = Some ''release/$VERSION'',
          sha = None \<rparr> \<rparr>"
  have b: "AutoBumpProps.body ?p = None"
    by (simp add: emptyRequest_def)
  have h: "AutoBumpProps.head ?p
        = Some \<lparr> AutoBumpHead.name = Some ''release/$VERSION'', sha = None \<rparr>
      \<and> AutoBumpHead.name \<lparr> AutoBumpHead.name = Some ''release/$VERSION'', sha = None \<rparr>
        = Some ''release/$VERSION''"
    by (simp add: emptyRequest_def)
  have o: "owner (AutoBumpProps.repo ?p) = ''acme''"
    and r: "RepositoryIdentity.repo (AutoBumpProps.repo ?p) = ''widgets''"
    by (simp_all add: emptyRequest_def acme_widgets_def)
  have no_dollar: "CHR ''$'' \<notin> set (owner (AutoBumpProps.repo ?p))
      \<and> CHR ''$'' \<notin> set (RepositoryIdentity.repo (AutoBumpProps.repo ?p))"
    unfolding o r by simp
  note release = body_from_resolved_branch [OF b, THEN conjunct2, THEN conjunct2,
      THEN spec, THEN mp, OF h]
  have eq: "AutoPullRequestProps.body (AutoBump ?p)
      = ''See [CHANGELOG](https://github.com/acme/widgets/blob/release/$VERSION/CHANGELOG.md)''"
    using release [THEN conjunct1] unfolding o r by simp
  have has: "sublist ''release/$VERSION'' (AutoPullRequestProps.body (AutoBump ?p))"
    by (rule release [THEN conjunct2, THEN conjunct2, THEN conjunct2, THEN conjunct1])
  have has_not: "\<not> sublist ''bump/$VERSION'' (AutoPullRequestProps.body (AutoBump ?p))"
    by (rule release [THEN conjunct2, THEN conjunct2, THEN conjunct2, THEN conjunct2,
          THEN mp, OF no_dollar])
  from b eq has has_not show ?thesis
    by (intro conjI)
qed

section \<open>Exports, commands, condition\<close>

text \<open>
  C4. The exports passed on always bind \<open>VERSION\<close> to the resolved version command
  (\<open>props.versionCommand\<close> if supplied, else \<open>git describe\<close>). A value \<open>x\<close> that the
  caller's exports hold at \<open>VERSION\<close> is overwritten: the output holds \<open>x\<close> there
  only if \<open>x\<close> is the resolved version command itself. Every other key holds what the
  caller's exports hold there (and nothing if they hold nothing); without caller's
  exports \<open>VERSION\<close> is the only key.
\<close>

theorem exports_reserve_VERSION:
  fixes props :: "('h, 'p) AutoBumpProps"
  shows
    "AutoPullRequestProps.exports (AutoBump props) ''VERSION'' = Some (versionCommand props)
     \<and> versionCommand props
         = (case AutoBumpProps.versionCommand props of None \<Rightarrow> ''git describe'' | Some c \<Rightarrow> c)
     \<and> (\<forall>m x. AutoBumpProps.exports props = Some m \<and> m ''VERSION'' = Some x \<longrightarrow>
          AutoPullRequestProps.exports (AutoBump props) ''VERSION'' = Some (versionCommand props)
          \<and> (AutoPullRequestProps.exports (AutoBump props) ''VERSION'' = Some x)
              = (x = versionCommand props))
     \<and> (\<forall>m k. AutoBumpProps.exports props = Some m \<and> k \<noteq> ''VERSION'' \<longrightarrow>
          AutoPullRequestProps.exports (AutoBump props) k = m k)
     \<and> (AutoBumpProps.exports props = None \<longrightarrow>
          AutoPullRequestProps.exports (AutoBump props) = [''VERSION'' \<mapsto> versionCommand props])"
  by (auto simp add: AutoBump_def versionCommand_def)

text \<open>
  The request \<open>{repo: acme/widgets, exports: {VERSION: "X", FOO: "bar"}}\<close>.
\<close>

theorem exports_reserve_VERSION_witness:
  "AutoBumpProps.exports ((emptyRequest acme_widgets () :: (unit, unit) AutoBumpProps)
      \<lparr> AutoBumpProps.exports := Some [''VERSION'' \<mapsto> ''X'', ''FOO'' \<mapsto> ''bar''] \<rparr>)
     = Some [''VERSION'' \<mapsto> ''X'', ''FOO'' \<mapsto> ''bar'']
   \<and> [''VERSION'' \<mapsto> ''X'', ''FOO'' \<mapsto> ''bar''] ''VERSION'' = Some ''X''
   \<and> AutoPullRequestProps.exports (AutoBump ((emptyRequest acme_widgets () :: (unit, unit) AutoBumpProps)
      \<lparr> AutoBumpProps.exports := Some [''VERSION'' \<mapsto> ''X'', ''FOO'' \<mapsto> ''bar''] \<rparr>))
      ''VERSION'' = Some ''git describe''
   \<and> AutoPullRequestProps.exports (AutoBump ((emptyRequest acme_widgets () :: (unit, unit) AutoBumpProps)
      \<lparr> AutoBumpProps.exports := Some [''VERSION'' \<mapsto> ''X'', ''FOO'' \<mapsto> ''bar''] \<rparr>))
      ''VERSION'' \<noteq> Some ''X''
   \<and> AutoPullRequestProps.exports (AutoBump ((emptyRequest acme_widgets () :: (unit, unit) AutoBumpProps)
      \<lparr> AutoBumpProps.exports := Some [''VERSION'' \<mapsto> ''X'', ''FOO'' \<mapsto> ''bar''] \<rparr>))
      ''FOO'' = Some ''bar''
   \<and> AutoPullRequestProps.exports (AutoBump ((emptyRequest acme_widgets () :: (unit, unit) AutoBumpProps)
      \<lparr> AutoBumpProps.exports := Some [''VERSION'' \<mapsto> ''X'', ''FOO'' \<mapsto> ''bar''] \<rparr>))
      ''BAZ'' = None"
proof -
  let ?m = "[''VERSION'' \<mapsto> ''X'', ''FOO'' \<mapsto> ''bar'']"
  let ?p = "(emptyRequest acme_widgets () :: (unit, unit) AutoBumpProps) \<lparr> AutoBumpProps.exports := Some ?m \<rparr>"
  note t = exports_reserve_VERSION [of ?p]
  have m: "AutoBumpProps.exports ?p = Some ?m"
    by (simp add: emptyRequest_def)
  have x: "?m ''VERSION'' = Some ''X''"
    by simp
  have vc: "versionCommand ?p = ''git describe''"
    using t [THEN conjunct2, THEN conjunct1] by (simp add: emptyRequest_def)
  have v: "AutoPullRequestProps.exports (AutoBump ?p) ''VERSION'' = Some ''git describe''"
    using t [THEN conjunct1] unfolding vc .
  have nx: "AutoPullRequestProps.exports (AutoBump ?p) ''VERSION'' \<noteq> Some ''X''"
    unfolding v by simp
  have others: "k \<noteq> ''VERSION'' \<Longrightarrow> AutoPullRequestProps.exports (AutoBump ?p) k = ?m k" for k
    using t [THEN conjunct2, THEN conjunct2, THEN conjunct2, THEN conjunct1] m by blast
  have foo: "AutoPullRequestProps.exports (AutoBump ?p) ''FOO'' = Some ''bar''"
    using others [of "''FOO''"] by simp
  have baz: "AutoPullRequestProps.exports (AutoBump ?p) ''BAZ'' = None"
    using others [of "''BAZ''"] by simp
  from m x v nx foo baz show ?thesis
    by (intro conjI)
qed

text \<open>
  C5. The commands passed on are a list of length one, whose element is the
  resolved bump command: \<open>props.bumpCommand\<close> if supplied, else \<open>/bin/sh ./bump.sh\<close>.
\<close>

theorem commands_single_bump_command:
  fixes props :: "('h, 'p) AutoBumpProps"
  shows
    "length (AutoPullRequestProps.commands (AutoBump props)) = 1
     \<and> AutoPullRequestProps.commands (AutoBump props) = [bumpCommand props]
     \<and> bumpCommand props
         = (case AutoBumpProps.bumpCommand props of None \<Rightarrow> ''/bin/sh ./bump.sh'' | Some c \<Rightarrow> c)"
  by (simp add: AutoBump_def bumpCommand_def)

text \<open>
  C6. The condition passed on is the literal \<open>git describe --exact-match master\<close>,
  for every request and every repository.
\<close>

theorem condition_fixed:
  fixes props :: "('h, 'p) AutoBumpProps"
  shows "AutoPullRequestProps.condition (AutoBump props) = ''git describe --exact-match master''"
  by (simp add: AutoBump_def)

section \<open>The keys the constructor writes itself\<close>

text \<open>
  C7, as stated, fails: \<open>props.head\<close> is read (lines 96 and 106). The two requests
  \<open>{repo: acme/widgets, head: {name: "release/1", source: "main"}}\<close> and
  \<open>{repo: acme/widgets, head: {name: "release/2", source: "main"}}\<close>, whose heads have
  the engine's shape, differ at the key \<open>head\<close> only, and the constructor passes on
  two different objects.
\<close>

theorem head_is_read_counterexample:
  "differ_only_in_commands_condition_head
     ((emptyRequest acme_widgets () :: (string option, unit) AutoBumpProps)
        \<lparr> AutoBumpProps.head :=
            Some \<lparr> AutoBumpHead.name = Some ''release/1'', sha = None, \<dots> = Some ''main'' \<rparr> \<rparr>)
     ((emptyRequest acme_widgets () :: (string option, unit) AutoBumpProps)
        \<lparr> AutoBumpProps.head :=
            Some \<lparr> AutoBumpHead.name = Some ''release/2'', sha = None, \<dots> = Some ''main'' \<rparr> \<rparr>)
   \<and> AutoBump
     ((emptyRequest acme_widgets () :: (string option, unit) AutoBumpProps)
        \<lparr> AutoBumpProps.head :=
            Some \<lparr> AutoBumpHead.name = Some ''release/1'', sha = None, \<dots> = Some ''main'' \<rparr> \<rparr>)
     \<noteq> AutoBump
     ((emptyRequest acme_widgets () :: (string option, unit) AutoBumpProps)
        \<lparr> AutoBumpProps.head :=
            Some \<lparr> AutoBumpHead.name = Some ''release/2'', sha = None, \<dots> = Some ''main'' \<rparr> \<rparr>)"
  by (simp add: differ_only_in_commands_condition_head_def emptyRequest_def AutoBump_def
      branchName_def)

text \<open>
  C7, amended. \<open>props.commands\<close> and \<open>props.condition\<close> are never read, and \<open>props.head\<close>
  is read through \<open>props.head?.name\<close> and \<open>props.head?.sha\<close> only: two requests that
  differ only in \<open>commands\<close>, in \<open>condition\<close> and in properties of \<open>head\<close> other than
  \<open>name\<close> and \<open>sha\<close> give the same object. At the three keys the object holds what
  the constructor writes: the head \<open>{name: branchName, source: props.head?.sha}\<close>,
  the commands \<open>[bumpCommand]\<close> and the fixed condition, whatever the caller put
  there.
\<close>

theorem unread_inputs_overwritten:
  fixes p :: "('h, 'p) AutoBumpProps" and q :: "('k, 'p) AutoBumpProps"
  shows
    "(differ_only_in_unread p q \<longrightarrow> AutoBump p = AutoBump q)
     \<and> AutoPullRequestProps.head (AutoBump p)
         = \<lparr> AutoPullRequestHead.name = branchName p,
             AutoPullRequestHead.source =
               (case AutoBumpProps.head p of None \<Rightarrow> None | Some h \<Rightarrow> sha h) \<rparr>
     \<and> AutoPullRequestProps.commands (AutoBump p) = [bumpCommand p]
     \<and> AutoPullRequestProps.condition (AutoBump p) = ''git describe --exact-match master''"
proof -
  have "AutoBump p = AutoBump q" if d: "differ_only_in_unread p q"
  proof -
    from d have bc: "AutoBumpProps.bumpCommand p = AutoBumpProps.bumpCommand q"
      and vc: "AutoBumpProps.versionCommand p = AutoBumpProps.versionCommand q"
      and t: "AutoBumpProps.title p = AutoBumpProps.title q"
      and b: "AutoBumpProps.body p = AutoBumpProps.body q"
      and r: "AutoBumpProps.repo p = AutoBumpProps.repo q"
      and e: "AutoBumpProps.exports p = AutoBumpProps.exports q"
      and o: "AutoBumpProps.rest p = AutoBumpProps.rest q"
      and hn: "(case AutoBumpProps.head p of None \<Rightarrow> None | Some h \<Rightarrow> AutoBumpHead.name h)
          = (case AutoBumpProps.head q of None \<Rightarrow> None | Some h \<Rightarrow> AutoBumpHead.name h)"
      and hs: "(case AutoBumpProps.head p of None \<Rightarrow> None | Some h \<Rightarrow> sha h)
          = (case AutoBumpProps.head q of None \<Rightarrow> None | Some h \<Rightarrow> sha h)"
      by (simp_all add: differ_only_in_unread_def)
    have branch: "branchName p = branchName q"
      unfolding branchName_def hn ..
    have "bumpCommand p = bumpCommand q" and "versionCommand p = versionCommand q"
      and "title p = title q" and "body p = body q"
      unfolding bumpCommand_def versionCommand_def title_def body_def bc vc t b r branch
      by (rule refl)+
    then show ?thesis
      unfolding AutoBump_def bc vc r e o hs branch by simp
  qed
  then show ?thesis
    by (simp add: AutoBump_def)
qed

text \<open>
  The first request carries \<open>commands\<close>, \<open>condition\<close> and a head with a \<open>source\<close>; the
  second has none of the three.
\<close>

theorem unread_inputs_overwritten_witness:
  "differ_only_in_unread
     ((emptyRequest acme_widgets () :: (string option, unit) AutoBumpProps)
        \<lparr> AutoBumpProps.head :=
            Some \<lparr> AutoBumpHead.name = Some ''release/1'', sha = Some ''abc'',
              \<dots> = Some ''main'' \<rparr>,
          AutoBumpProps.commands := Some [''echo one'', ''echo two''],
          AutoBumpProps.condition := Some ''true'' \<rparr>)
     ((emptyRequest acme_widgets () :: (unit, unit) AutoBumpProps)
        \<lparr> AutoBumpProps.head :=
            Some \<lparr> AutoBumpHead.name = Some ''release/1'', sha = Some ''abc'' \<rparr> \<rparr>)
   \<and> AutoBump
     ((emptyRequest acme_widgets () :: (string option, unit) AutoBumpProps)
        \<lparr> AutoBumpProps.head :=
            Some \<lparr> AutoBumpHead.name = Some ''release/1'', sha = Some ''abc'',
              \<dots> = Some ''main'' \<rparr>,
          AutoBumpProps.commands := Some [''echo one'', ''echo two''],
          AutoBumpProps.condition := Some ''true'' \<rparr>)
     = AutoBump
     ((emptyRequest acme_widgets () :: (unit, unit) AutoBumpProps)
        \<lparr> AutoBumpProps.head :=
            Some \<lparr> AutoBumpHead.name = Some ''release/1'', sha = Some ''abc'' \<rparr> \<rparr>)
   \<and> AutoPullRequestProps.head (AutoBump
     ((emptyRequest acme_widgets () :: (string option, unit) AutoBumpProps)
        \<lparr> AutoBumpProps.head :=
            Some \<lparr> AutoBumpHead.name = Some ''release/1'', sha = Some ''abc'',
              \<dots> = Some ''main'' \<rparr>,
          AutoBumpProps.commands := Some [''echo one'', ''echo two''],
          AutoBumpProps.condition := Some ''true'' \<rparr>))
     = \<lparr> AutoPullRequestHead.name = ''release/1'', AutoPullRequestHead.source = Some ''abc'' \<rparr>
   \<and> AutoPullRequestProps.commands (AutoBump
     ((emptyRequest acme_widgets () :: (string option, unit) AutoBumpProps)
        \<lparr> AutoBumpProps.head :=
            Some \<lparr> AutoBumpHead.name = Some ''release/1'', sha = Some ''abc'',
              \<dots> = Some ''main'' \<rparr>,
          AutoBumpProps.commands := Some [''echo one'', ''echo two''],
          AutoBumpProps.condition := Some ''true'' \<rparr>))
     = [''/bin/sh ./bump.sh'']
   \<and> AutoPullRequestProps.condition (AutoBump
     ((emptyRequest acme_widgets () :: (string option, unit) AutoBumpProps)
        \<lparr> AutoBumpProps.head :=
            Some \<lparr> AutoBumpHead.name = Some ''release/1'', sha = Some ''abc'',
              \<dots> = Some ''main'' \<rparr>,
          AutoBumpProps.commands := Some [''echo one'', ''echo two''],
          AutoBumpProps.condition := Some ''true'' \<rparr>))
     = ''git describe --exact-match master''"
proof -
  let ?p = "(emptyRequest acme_widgets () :: (string option, unit) AutoBumpProps)
        \<lparr> AutoBumpProps.head :=
            Some \<lparr> AutoBumpHead.name = Some ''release/1'', sha = Some ''abc'',
              \<dots> = Some ''main'' \<rparr>,
          AutoBumpProps.commands := Some [''echo one'', ''echo two''],
          AutoBumpProps.condition := Some ''true'' \<rparr>"
  let ?q = "(emptyRequest acme_widgets () :: (unit, unit) AutoBumpProps)
        \<lparr> AutoBumpProps.head :=
            Some \<lparr> AutoBumpHead.name = Some ''release/1'', sha = Some ''abc'' \<rparr> \<rparr>"
  have d: "differ_only_in_unread ?p ?q"
    by (simp add: differ_only_in_unread_def emptyRequest_def)
  note t = unread_inputs_overwritten [of ?p ?q]
  from d have same: "AutoBump ?p = AutoBump ?q"
    using t [THEN conjunct1] by blast
  have branch: "branchName ?p = ''release/1''"
    by (simp add: branchName_def)
  have sha: "(case AutoBumpProps.head ?p of None \<Rightarrow> None | Some h \<Rightarrow> sha h) = Some ''abc''"
    by simp
  have bump: "bumpCommand ?p = ''/bin/sh ./bump.sh''"
    by (simp add: bumpCommand_def emptyRequest_def)
  have h: "AutoPullRequestProps.head (AutoBump ?p)
      = \<lparr> AutoPullRequestHead.name = ''release/1'', AutoPullRequestHead.source = Some ''abc'' \<rparr>"
    using t [THEN conjunct2, THEN conjunct1] unfolding branch sha .
  have c: "AutoPullRequestProps.commands (AutoBump ?p) = [''/bin/sh ./bump.sh'']"
    using t [THEN conjunct2, THEN conjunct2, THEN conjunct1] unfolding bump .
  have g: "AutoPullRequestProps.condition (AutoBump ?p) = ''git describe --exact-match master''"
    by (rule t [THEN conjunct2, THEN conjunct2, THEN conjunct2])
  from d same h c g show ?thesis
    by (intro conjI)
qed

section \<open>The head and the token\<close>

text \<open>
  C8. The constructor rewrites no string. The branch name passed on is
  \<open>props.head.name\<close> or the literal \<open>bump/$VERSION\<close>, the title is \<open>props.title\<close> or the
  literal \<open>chore(release): $VERSION\<close>, the body is \<open>props.body\<close> or the link with the
  branch name between \<open>/blob/\<close> and \<open>/CHANGELOG.md)\<close>, character for character. So a
  \<open>$VERSION\<close> at any place of a supplied branch name, title or body stands at the
  same place of the output field, and a \<open>$VERSION\<close> of the branch name stands in the
  derived body, behind the link's prefix.
\<close>

theorem version_token_verbatim:
  fixes props :: "('h, 'p) AutoBumpProps"
  shows
    "AutoPullRequestHead.name (AutoPullRequestProps.head (AutoBump props))
       = (case AutoBumpProps.head props of
            None \<Rightarrow> ''bump/$VERSION''
          | Some h \<Rightarrow> (case AutoBumpHead.name h of None \<Rightarrow> ''bump/$VERSION'' | Some n \<Rightarrow> n))
     \<and> AutoPullRequestProps.title (AutoBump props)
       = (case AutoBumpProps.title props of None \<Rightarrow> ''chore(release): $VERSION'' | Some t \<Rightarrow> t)
     \<and> AutoPullRequestProps.body (AutoBump props)
       = (case AutoBumpProps.body props of
            None \<Rightarrow>
              ''See [CHANGELOG](https://github.com/'' @ owner (AutoBumpProps.repo props)
                @ ''/'' @ RepositoryIdentity.repo (AutoBumpProps.repo props) @ ''/blob/''
                @ AutoPullRequestHead.name (AutoPullRequestProps.head (AutoBump props))
                @ ''/CHANGELOG.md)''
          | Some b \<Rightarrow> b)
     \<and> (\<forall>h pre post. AutoBumpProps.head props = Some h
            \<and> AutoBumpHead.name h = Some (pre @ ''$VERSION'' @ post) \<longrightarrow>
          AutoPullRequestHead.name (AutoPullRequestProps.head (AutoBump props))
            = pre @ ''$VERSION'' @ post)
     \<and> (\<forall>pre post. AutoBumpProps.title props = Some (pre @ ''$VERSION'' @ post) \<longrightarrow>
          AutoPullRequestProps.title (AutoBump props) = pre @ ''$VERSION'' @ post)
     \<and> (\<forall>pre post. AutoBumpProps.body props = Some (pre @ ''$VERSION'' @ post) \<longrightarrow>
          AutoPullRequestProps.body (AutoBump props) = pre @ ''$VERSION'' @ post)
     \<and> (\<forall>pre post. AutoBumpProps.body props = None
            \<and> AutoPullRequestHead.name (AutoPullRequestProps.head (AutoBump props))
                = pre @ ''$VERSION'' @ post \<longrightarrow>
          AutoPullRequestProps.body (AutoBump props)
            = (''See [CHANGELOG](https://github.com/'' @ owner (AutoBumpProps.repo props)
                @ ''/'' @ RepositoryIdentity.repo (AutoBumpProps.repo props) @ ''/blob/'' @ pre)
              @ ''$VERSION'' @ (post @ ''/CHANGELOG.md)''))"
  by (simp add: AutoBump_def branchName_def title_def body_def split: option.splits)

text \<open>
  The request \<open>{repo: acme/widgets, title: "release $VERSION now",
  head: {name: "rel/$VERSION-rc"}}\<close>, with no body.
\<close>

theorem version_token_verbatim_witness:
  "AutoPullRequestProps.title (AutoBump
      ((emptyRequest acme_widgets () :: (unit, unit) AutoBumpProps)
        \<lparr> AutoBumpProps.title := Some ''release $VERSION now'',
          AutoBumpProps.head := Some \<lparr> AutoBumpHead.name = Some ''rel/$VERSION-rc'',
            sha = None \<rparr> \<rparr>))
     = ''release $VERSION now''
   \<and> AutoPullRequestHead.name (AutoPullRequestProps.head (AutoBump
      ((emptyRequest acme_widgets () :: (unit, unit) AutoBumpProps)
        \<lparr> AutoBumpProps.title := Some ''release $VERSION now'',
          AutoBumpProps.head := Some \<lparr> AutoBumpHead.name = Some ''rel/$VERSION-rc'',
            sha = None \<rparr> \<rparr>)))
     = ''rel/$VERSION-rc''
   \<and> AutoPullRequestProps.body (AutoBump
      ((emptyRequest acme_widgets () :: (unit, unit) AutoBumpProps)
        \<lparr> AutoBumpProps.title := Some ''release $VERSION now'',
          AutoBumpProps.head := Some \<lparr> AutoBumpHead.name = Some ''rel/$VERSION-rc'',
            sha = None \<rparr> \<rparr>))
     = ''See [CHANGELOG](https://github.com/acme/widgets/blob/rel/$VERSION-rc/CHANGELOG.md)''"
proof -
  let ?p = "(emptyRequest acme_widgets () :: (unit, unit) AutoBumpProps)
        \<lparr> AutoBumpProps.title := Some ''release $VERSION now'',
          AutoBumpProps.head := Some \<lparr> AutoBumpHead.name = Some ''rel/$VERSION-rc'',
            sha = None \<rparr> \<rparr>"
  note t = version_token_verbatim [of ?p]
  have title_in: "AutoBumpProps.title ?p = Some (''release '' @ ''$VERSION'' @ '' now'')"
    by (simp add: emptyRequest_def)
  have head_in: "AutoBumpProps.head ?p
        = Some \<lparr> AutoBumpHead.name = Some ''rel/$VERSION-rc'', sha = None \<rparr>
      \<and> AutoBumpHead.name \<lparr> AutoBumpHead.name = Some ''rel/$VERSION-rc'', sha = None \<rparr>
        = Some (''rel/'' @ ''$VERSION'' @ ''-rc'')"
    by (simp add: emptyRequest_def)
  have body_in: "AutoBumpProps.body ?p = None"
    by (simp add: emptyRequest_def)
  have t1: "AutoPullRequestProps.title (AutoBump ?p) = ''release '' @ ''$VERSION'' @ '' now''"
    using t title_in by blast
  have t2: "AutoPullRequestHead.name (AutoPullRequestProps.head (AutoBump ?p))
      = ''rel/'' @ ''$VERSION'' @ ''-rc''"
    using t head_in by blast
  have t3: "AutoPullRequestProps.body (AutoBump ?p)
      = (''See [CHANGELOG](https://github.com/'' @ owner (AutoBumpProps.repo ?p)
          @ ''/'' @ RepositoryIdentity.repo (AutoBumpProps.repo ?p) @ ''/blob/'' @ ''rel/'')
        @ ''$VERSION'' @ (''-rc'' @ ''/CHANGELOG.md)'')"
    using t body_in t2 by blast
  have o: "owner (AutoBumpProps.repo ?p) = ''acme''"
    and r: "RepositoryIdentity.repo (AutoBumpProps.repo ?p) = ''widgets''"
    by (simp_all add: emptyRequest_def acme_widgets_def)
  show ?thesis
    unfolding t1 t2 t3 o r by simp
qed

text \<open>
  C9. \<open>head.source\<close> of the object passed on is \<open>props.head?.sha\<close>: the string
  \<open>props.head.sha\<close> when it is supplied, \<open>undefined\<close> when \<open>props.head\<close> is absent or
  has no \<open>sha\<close>.
\<close>

theorem head_source_is_sha:
  fixes props :: "('h, 'p) AutoBumpProps"
  shows
    "AutoPullRequestHead.source (AutoPullRequestProps.head (AutoBump props))
       = (case AutoBumpProps.head props of None \<Rightarrow> None | Some h \<Rightarrow> sha h)
     \<and> (\<forall>h s. AutoBumpProps.head props = Some h \<and> sha h = Some s \<longrightarrow>
          AutoPullRequestHead.source (AutoPullRequestProps.head (AutoBump props)) = Some s)
     \<and> (AutoBumpProps.head props = None \<longrightarrow>
          AutoPullRequestHead.source (AutoPullRequestProps.head (AutoBump props)) = None)
     \<and> (\<forall>h. AutoBumpProps.head props = Some h \<and> sha h = None \<longrightarrow>
          AutoPullRequestHead.source (AutoPullRequestProps.head (AutoBump props)) = None)"
  by (simp add: AutoBump_def)

text \<open>
  The requests \<open>{head: {sha: "0123abc"}}\<close>, \<open>{}\<close> and \<open>{head: {name: "next"}}\<close>, each with
  the repository acme/widgets.
\<close>

theorem head_source_is_sha_witness:
  "AutoPullRequestHead.source (AutoPullRequestProps.head (AutoBump
      ((emptyRequest acme_widgets () :: (unit, unit) AutoBumpProps)
        \<lparr> AutoBumpProps.head := Some \<lparr> AutoBumpHead.name = None, sha = Some ''0123abc'' \<rparr> \<rparr>)))
     = Some ''0123abc''
   \<and> AutoPullRequestHead.source (AutoPullRequestProps.head (AutoBump
      (emptyRequest acme_widgets () :: (unit, unit) AutoBumpProps)))
     = None
   \<and> AutoPullRequestHead.source (AutoPullRequestProps.head (AutoBump
      ((emptyRequest acme_widgets () :: (unit, unit) AutoBumpProps)
        \<lparr> AutoBumpProps.head := Some \<lparr> AutoBumpHead.name = Some ''next'', sha = None \<rparr> \<rparr>)))
     = None"
proof -
  let ?e = "emptyRequest acme_widgets () :: (unit, unit) AutoBumpProps"
  let ?h1 = "\<lparr> AutoBumpHead.name = None, sha = Some ''0123abc'' \<rparr>"
  let ?h3 = "\<lparr> AutoBumpHead.name = Some ''next'', sha = None \<rparr>"
  have 1: "AutoBumpProps.head (?e \<lparr> AutoBumpProps.head := Some ?h1 \<rparr>) = Some ?h1
      \<and> sha ?h1 = Some ''0123abc''"
    by simp
  have 2: "AutoBumpProps.head ?e = None"
    by (simp add: emptyRequest_def)
  have 3: "AutoBumpProps.head (?e \<lparr> AutoBumpProps.head := Some ?h3 \<rparr>) = Some ?h3
      \<and> sha ?h3 = None"
    by simp
  from 1 have "AutoPullRequestHead.source (AutoPullRequestProps.head (AutoBump
      (?e \<lparr> AutoBumpProps.head := Some ?h1 \<rparr>))) = Some ''0123abc''"
    using head_source_is_sha [of "?e \<lparr> AutoBumpProps.head := Some ?h1 \<rparr>"] by blast
  moreover from 2 have "AutoPullRequestHead.source (AutoPullRequestProps.head (AutoBump ?e))
      = None"
    using head_source_is_sha [of ?e] by blast
  moreover from 3 have "AutoPullRequestHead.source (AutoPullRequestProps.head (AutoBump
      (?e \<lparr> AutoBumpProps.head := Some ?h3 \<rparr>))) = None"
    using head_source_is_sha [of "?e \<lparr> AutoBumpProps.head := Some ?h3 \<rparr>"] by blast
  ultimately show ?thesis
    by (intro conjI)
qed

text \<open>
  C10. The two head values are resolved apart. With a head that has a \<open>sha\<close> and no
  \<open>name\<close>, the head passed on is \<open>{name: "bump/$VERSION", source: sha}\<close>; with a head
  that has a \<open>name\<close> and no \<open>sha\<close>, it is \<open>{name: name, source: undefined}\<close>. Changing
  the \<open>sha\<close> of a head never changes the name passed on, and changing its \<open>name\<close> never
  changes the source passed on.
\<close>

theorem head_fields_independent:
  fixes props :: "('h, 'p) AutoBumpProps"
  shows
    "(\<forall>h s. AutoBumpProps.head props = Some h \<and> AutoBumpHead.name h = None
            \<and> sha h = Some s \<longrightarrow>
        AutoPullRequestProps.head (AutoBump props)
          = \<lparr> AutoPullRequestHead.name = ''bump/$VERSION'',
              AutoPullRequestHead.source = Some s \<rparr>)
     \<and> (\<forall>h n. AutoBumpProps.head props = Some h \<and> AutoBumpHead.name h = Some n
            \<and> sha h = None \<longrightarrow>
        AutoPullRequestProps.head (AutoBump props)
          = \<lparr> AutoPullRequestHead.name = n, AutoPullRequestHead.source = None \<rparr>)
     \<and> (\<forall>h s. AutoPullRequestHead.name (AutoPullRequestProps.head
            (AutoBump (props \<lparr> AutoBumpProps.head := Some (h \<lparr> sha := s \<rparr>) \<rparr>)))
          = AutoPullRequestHead.name (AutoPullRequestProps.head
            (AutoBump (props \<lparr> AutoBumpProps.head := Some h \<rparr>))))
     \<and> (\<forall>h n. AutoPullRequestHead.source (AutoPullRequestProps.head
            (AutoBump (props \<lparr> AutoBumpProps.head := Some (h \<lparr> AutoBumpHead.name := n \<rparr>) \<rparr>)))
          = AutoPullRequestHead.source (AutoPullRequestProps.head
            (AutoBump (props \<lparr> AutoBumpProps.head := Some h \<rparr>))))"
  by (simp add: AutoBump_def branchName_def)

text \<open>
  The requests \<open>{head: {sha: "0123abc"}}\<close> and \<open>{head: {name: "next"}}\<close>, each with the
  repository acme/widgets.
\<close>

theorem head_fields_independent_witness:
  "AutoPullRequestProps.head (AutoBump
      ((emptyRequest acme_widgets () :: (unit, unit) AutoBumpProps)
        \<lparr> AutoBumpProps.head := Some \<lparr> AutoBumpHead.name = None, sha = Some ''0123abc'' \<rparr> \<rparr>))
     = \<lparr> AutoPullRequestHead.name = ''bump/$VERSION'',
         AutoPullRequestHead.source = Some ''0123abc'' \<rparr>
   \<and> AutoPullRequestProps.head (AutoBump
      ((emptyRequest acme_widgets () :: (unit, unit) AutoBumpProps)
        \<lparr> AutoBumpProps.head := Some \<lparr> AutoBumpHead.name = Some ''next'', sha = None \<rparr> \<rparr>))
     = \<lparr> AutoPullRequestHead.name = ''next'', AutoPullRequestHead.source = None \<rparr>"
proof -
  let ?e = "emptyRequest acme_widgets () :: (unit, unit) AutoBumpProps"
  let ?h1 = "\<lparr> AutoBumpHead.name = None, sha = Some ''0123abc'' \<rparr>"
  let ?h2 = "\<lparr> AutoBumpHead.name = Some ''next'', sha = None \<rparr>"
  have 1: "AutoBumpProps.head (?e \<lparr> AutoBumpProps.head := Some ?h1 \<rparr>) = Some ?h1
      \<and> AutoBumpHead.name ?h1 = None \<and> sha ?h1 = Some ''0123abc''"
    by simp
  have 2: "AutoBumpProps.head (?e \<lparr> AutoBumpProps.head := Some ?h2 \<rparr>) = Some ?h2
      \<and> AutoBumpHead.name ?h2 = Some ''next'' \<and> sha ?h2 = None"
    by simp
  from 1 have "AutoPullRequestProps.head (AutoBump (?e \<lparr> AutoBumpProps.head := Some ?h1 \<rparr>))
      = \<lparr> AutoPullRequestHead.name = ''bump/$VERSION'',
          AutoPullRequestHead.source = Some ''0123abc'' \<rparr>"
    using head_fields_independent [of "?e \<lparr> AutoBumpProps.head := Some ?h1 \<rparr>"] by blast
  moreover from 2 have "AutoPullRequestProps.head (AutoBump (?e \<lparr> AutoBumpProps.head := Some ?h2 \<rparr>))
      = \<lparr> AutoPullRequestHead.name = ''next'', AutoPullRequestHead.source = None \<rparr>"
    using head_fields_independent [of "?e \<lparr> AutoBumpProps.head := Some ?h2 \<rparr>"] by blast
  ultimately show ?thesis
    by (intro conjI)
qed

end
